theory Spec2Isabelle
  imports Complex_Main "HOL-Library.Sublist" "HOL-Library.Multiset"
begin

section \<open>JavaScript strings\<close>

text \<open>
  A string is a list of 8-bit characters. The model reads them as ASCII code units:
  case conversion and white space are defined on ASCII only, and a character above
  127 is an opaque unit that is neither a letter nor white space.
\<close>

definition lower_char :: "char \<Rightarrow> char" where
  "lower_char c =
     (let n = (of_char c :: nat) in if 65 \<le> n \<and> n \<le> 90 then char_of (n + 32) else c)"

text \<open>\<^verbatim>\<open>String.prototype.toLowerCase\<close>.\<close>

definition toLowerCase :: "string \<Rightarrow> string" where
  "toLowerCase s = map lower_char s"

text \<open>White space as \<^verbatim>\<open>trim\<close> sees it: TAB, LF, VT, FF, CR and SPACE.\<close>

definition is_space :: "char \<Rightarrow> bool" where
  "is_space c = ((of_char c :: nat) \<in> {9, 10, 11, 12, 13, 32})"

text \<open>\<^verbatim>\<open>String.prototype.trim\<close>: white space is removed at both ends only.\<close>

definition trim :: "string \<Rightarrow> string" where
  "trim s = rev (dropWhile is_space (rev (dropWhile is_space s)))"

text \<open>
  \<^verbatim>\<open>s.split(sep)\<close> for a separator of one character: the string is cut at every
  occurrence of the separator, so the empty string gives one empty part and two
  separators in a row give an empty part between them.
\<close>

fun split :: "char \<Rightarrow> string \<Rightarrow> string list" where
  "split sep [] = [[]]"
| "split sep (c # s) =
     (if c = sep then [] # split sep s
      else (case split sep s of
              [] \<Rightarrow> [[c]]
            | p # ps \<Rightarrow> (c # p) # ps))"

text \<open>
  \<^verbatim>\<open>s.indexOf(t)\<close>: the position of the first occurrence of \<open>t\<close> in \<open>s\<close>,
  and \<open>-1\<close> when there is none. \<open>indexOf_from\<close> carries the position reached.
\<close>

fun indexOf_from :: "nat \<Rightarrow> string \<Rightarrow> string \<Rightarrow> int" where
  "indexOf_from i [] t = (if t = [] then int i else - 1)"
| "indexOf_from i (c # s) t =
     (if take (length t) (c # s) = t then int i else indexOf_from (Suc i) s t)"

definition indexOf :: "string \<Rightarrow> string \<Rightarrow> int" where
  "indexOf s t = indexOf_from 0 s t"

definition is_digit :: "char \<Rightarrow> bool" where
  "is_digit c = (let n = (of_char c :: nat) in 48 \<le> n \<and> n \<le> 57)"

definition digit_char :: "nat \<Rightarrow> char" where
  "digit_char d = char_of (48 + d)"

text \<open>The decimal numeral of a natural number, as \<^verbatim>\<open>String(n)\<close> writes it.\<close>

function show_nat :: "nat \<Rightarrow> string" where
  "show_nat n =
     (if n < 10 then [digit_char n] else show_nat (n div 10) @ [digit_char (n mod 10)])"
  by pat_completeness auto
termination
  by (relation "measure (\<lambda>n. n)") auto

declare show_nat.simps [simp del]

definition show_int :: "int \<Rightarrow> string" where
  "show_int i = (if i < 0 then CHR ''-'' # show_nat (nat (- i)) else show_nat (nat i))"

text \<open>The value of a string of decimal digits, read from the left.\<close>

definition digits_value :: "string \<Rightarrow> nat" where
  "digits_value ds = foldl (\<lambda>acc c. 10 * acc + ((of_char c :: nat) - 48)) 0 ds"

text \<open>Comparison of two strings by code units, as \<^verbatim>\<open><\<close> compares two strings.\<close>

fun string_less :: "string \<Rightarrow> string \<Rightarrow> bool" where
  "string_less [] [] = False"
| "string_less [] (d # t) = True"
| "string_less (c # s) [] = False"
| "string_less (c # s) (d # t) =
     ((of_char c :: nat) < of_char d \<or> (c = d \<and> string_less s t))"

section \<open>JavaScript numbers\<close>

text \<open>
  A number is an exact rational or one of the three values that are not finite.
  Rounding to a double and the sign of zero are outside the model.
\<close>

datatype jsnum = Num rat | PosInfinity | NegInfinity | NaN

fun js_neg :: "jsnum \<Rightarrow> jsnum" where
  "js_neg (Num a) = Num (- a)"
| "js_neg PosInfinity = NegInfinity"
| "js_neg NegInfinity = PosInfinity"
| "js_neg NaN = NaN"

fun js_add :: "jsnum \<Rightarrow> jsnum \<Rightarrow> jsnum" where
  "js_add NaN y = NaN"
| "js_add x NaN = NaN"
| "js_add (Num a) (Num b) = Num (a + b)"
| "js_add (Num a) y = y"
| "js_add x (Num b) = x"
| "js_add PosInfinity PosInfinity = PosInfinity"
| "js_add NegInfinity NegInfinity = NegInfinity"
| "js_add PosInfinity NegInfinity = NaN"
| "js_add NegInfinity PosInfinity = NaN"

definition js_sub :: "jsnum \<Rightarrow> jsnum \<Rightarrow> jsnum" where
  "js_sub x y = js_add x (js_neg y)"

text \<open>The sign of a number that is not NaN: \<open>-1\<close>, \<open>0\<close> or \<open>1\<close>.\<close>

fun js_sign :: "jsnum \<Rightarrow> int" where
  "js_sign (Num a) = (if a < 0 then - 1 else if a = 0 then 0 else 1)"
| "js_sign PosInfinity = 1"
| "js_sign NegInfinity = - 1"
| "js_sign NaN = 0"

definition signed_infinity :: "int \<Rightarrow> jsnum" where
  "signed_infinity s = (if s < 0 then NegInfinity else PosInfinity)"

fun js_mul :: "jsnum \<Rightarrow> jsnum \<Rightarrow> jsnum" where
  "js_mul NaN y = NaN"
| "js_mul x NaN = NaN"
| "js_mul (Num a) (Num b) = Num (a * b)"
| "js_mul x y =
     (if js_sign x = 0 \<or> js_sign y = 0 then NaN else signed_infinity (js_sign x * js_sign y))"

fun js_div :: "jsnum \<Rightarrow> jsnum \<Rightarrow> jsnum" where
  "js_div NaN y = NaN"
| "js_div x NaN = NaN"
| "js_div (Num a) (Num b) =
     (if b = 0 then (if a = 0 then NaN else signed_infinity (js_sign (Num a))) else Num (a / b))"
| "js_div (Num a) y = Num 0"
| "js_div x (Num b) = signed_infinity (js_sign x * (if b < 0 then - 1 else 1))"
| "js_div x y = NaN"

fun Math_floor :: "jsnum \<Rightarrow> jsnum" where
  "Math_floor (Num a) = Num (of_int \<lfloor>a\<rfloor>)"
| "Math_floor x = x"

fun Math_ceil :: "jsnum \<Rightarrow> jsnum" where
  "Math_ceil (Num a) = Num (of_int \<lceil>a\<rceil>)"
| "Math_ceil x = x"

text \<open>\<^verbatim>\<open>x < y\<close> on numbers: false as soon as one side is NaN.\<close>

fun js_lt :: "jsnum \<Rightarrow> jsnum \<Rightarrow> bool" where
  "js_lt NaN y = False"
| "js_lt x NaN = False"
| "js_lt (Num a) (Num b) = (a < b)"
| "js_lt (Num a) y = (y = PosInfinity)"
| "js_lt x (Num b) = (x = NegInfinity)"
| "js_lt x y = (x = NegInfinity \<and> y = PosInfinity)"

definition js_gt :: "jsnum \<Rightarrow> jsnum \<Rightarrow> bool" where
  "js_gt x y = js_lt y x"

text \<open>\<^verbatim>\<open>x >= y\<close>: not \<^verbatim>\<open>x < y\<close>, and false as soon as one side is NaN.\<close>

definition js_ge :: "jsnum \<Rightarrow> jsnum \<Rightarrow> bool" where
  "js_ge x y = (x \<noteq> NaN \<and> y \<noteq> NaN \<and> \<not> js_lt x y)"

text \<open>\<^verbatim>\<open>x === y\<close> on numbers: NaN equals nothing, itself included.\<close>

definition js_eq :: "jsnum \<Rightarrow> jsnum \<Rightarrow> bool" where
  "js_eq x y = (x \<noteq> NaN \<and> x = y)"

text \<open>
  \<^verbatim>\<open>parseInt(s, 10)\<close>: leading white space is skipped, a sign is read, then the
  longest run of decimal digits; NaN when there is no digit.
\<close>

definition parseInt :: "string \<Rightarrow> jsnum" where
  "parseInt s =
     (let s1 = dropWhile is_space s;
          neg = (s1 \<noteq> [] \<and> hd s1 = CHR ''-'');
          s2 = (if s1 \<noteq> [] \<and> (hd s1 = CHR ''-'' \<or> hd s1 = CHR ''+'') then tl s1 else s1);
          ds = takeWhile is_digit s2
      in if ds = [] then NaN
         else Num (of_int ((if neg then - 1 else 1) * int (digits_value ds))))"

subsection \<open>Arrays\<close>

text \<open>
  \<^verbatim>\<open>ToIntegerOrInfinity\<close> and the clamping of a relative index that
  \<^verbatim>\<open>Array.prototype.slice\<close> applies to both of its arguments.
\<close>

definition relative_index :: "nat \<Rightarrow> jsnum \<Rightarrow> nat" where
  "relative_index len n =
     (case n of
        NaN \<Rightarrow> 0
      | NegInfinity \<Rightarrow> 0
      | PosInfinity \<Rightarrow> len
      | Num q \<Rightarrow>
          (let i = (if 0 \<le> q then \<lfloor>q\<rfloor> else \<lceil>q\<rceil>)
           in if i < 0 then nat (max (int len + i) 0) else min (nat i) len))"

definition Array_slice :: "'a list \<Rightarrow> jsnum \<Rightarrow> jsnum \<Rightarrow> 'a list" where
  "Array_slice xs start final =
     (let k = relative_index (length xs) start;
          e = relative_index (length xs) final
      in take (e - k) (drop k xs))"

definition Array_length :: "'a list \<Rightarrow> jsnum" where
  "Array_length xs = Num (of_nat (length xs))"

section \<open>JavaScript values\<close>

text \<open>
  The values a row and its cells can hold. An object carries its identity (the
  reference \<^verbatim>\<open>===\<close> compares) and its own properties in order. Numbers in cells are
  integers that \<^verbatim>\<open>String\<close> writes in plain digits; an object is a plain object: it
  has no \<^verbatim>\<open>toString\<close> of its own and the properties it inherits are not part of
  the model.
\<close>

datatype jsval =
    Undefined
  | Null
  | JBool bool
  | JNum int
  | JStr string
  | JObj nat "(string \<times> jsval) list"

text \<open>The truth value a condition gives to a value.\<close>

fun truthy :: "jsval \<Rightarrow> bool" where
  "truthy Undefined = False"
| "truthy Null = False"
| "truthy (JBool b) = b"
| "truthy (JNum n) = (n \<noteq> 0)"
| "truthy (JStr s) = (s \<noteq> [])"
| "truthy (JObj r ps) = True"

text \<open>\<^verbatim>\<open>String(v)\<close>.\<close>

fun String :: "jsval \<Rightarrow> string" where
  "String Undefined = ''undefined''"
| "String Null = ''null''"
| "String (JBool b) = (if b then ''true'' else ''false'')"
| "String (JNum n) = show_int n"
| "String (JStr s) = s"
| "String (JObj r ps) = ''[object Object]''"

text \<open>\<^verbatim>\<open>a === b\<close>: two objects are equal when they are the same object.\<close>

fun strict_eq :: "jsval \<Rightarrow> jsval \<Rightarrow> bool" where
  "strict_eq (JObj r ps) (JObj r' ps') = (r = r')"
| "strict_eq a b = (a = b)"

text \<open>
  An array index as a property name: a decimal numeral without a leading zero.
\<close>

definition canonical_index :: "string \<Rightarrow> nat option" where
  "canonical_index p =
     (if p \<noteq> [] \<and> list_all is_digit p \<and> (p = ''0'' \<or> hd p \<noteq> CHR ''0'')
      then Some (digits_value p) else None)"

text \<open>
  \<^verbatim>\<open>v[p]\<close> for a value that is neither undefined nor null (the callers test the
  value first): an own property of an object, the length or a character of a string,
  and undefined for everything else.
\<close>

fun get_prop :: "jsval \<Rightarrow> string \<Rightarrow> jsval" where
  "get_prop (JObj r ps) p = (case map_of ps p of Some v \<Rightarrow> v | None \<Rightarrow> Undefined)"
| "get_prop (JStr s) p =
     (if p = ''length'' then JNum (int (length s))
      else (case canonical_index p of
              Some i \<Rightarrow> (if i < length s then JStr [s ! i] else Undefined)
            | None \<Rightarrow> Undefined))"
| "get_prop v p = Undefined"

text \<open>
  \<^verbatim>\<open>ToNumber\<close>, with \<open>None\<close> for NaN. Of the numeric strings only the empty one
  and the signed decimal integers are read; a string with a fraction, an exponent or
  a radix prefix is outside the model.
\<close>

definition StringToNumber :: "string \<Rightarrow> int option" where
  "StringToNumber s =
     (let t = trim s;
          neg = (t \<noteq> [] \<and> hd t = CHR ''-'');
          ds = (if t \<noteq> [] \<and> (hd t = CHR ''-'' \<or> hd t = CHR ''+'') then tl t else t)
      in if t = [] then Some 0
         else if ds \<noteq> [] \<and> list_all is_digit ds
         then Some ((if neg then - 1 else 1) * int (digits_value ds))
         else None)"

fun ToNumber :: "jsval \<Rightarrow> int option" where
  "ToNumber Undefined = None"
| "ToNumber Null = Some 0"
| "ToNumber (JBool b) = Some (if b then 1 else 0)"
| "ToNumber (JNum n) = Some n"
| "ToNumber (JStr s) = StringToNumber s"
| "ToNumber (JObj r ps) = None"

text \<open>
  \<^verbatim>\<open>a < b\<close> on values: two strings (an object counts as the string it converts
  to) are compared by code units, anything else as numbers.
\<close>

fun ToPrimitive :: "jsval \<Rightarrow> jsval" where
  "ToPrimitive (JObj r ps) = JStr ''[object Object]''"
| "ToPrimitive v = v"

definition value_lt :: "jsval \<Rightarrow> jsval \<Rightarrow> bool" where
  "value_lt a b =
     (case (ToPrimitive a, ToPrimitive b) of
        (JStr x, JStr y) \<Rightarrow> string_less x y
      | (pa, pb) \<Rightarrow>
          (case (ToNumber pa, ToNumber pb) of
             (Some m, Some n) \<Rightarrow> m < n
           | _ \<Rightarrow> False))"

section \<open>The grid\<close>

subsection \<open>State\<close>

text \<open>
  Modelled from the spec: the class \<^verbatim>\<open>Column\<close> (module \<^verbatim>\<open>./column\<close>) is not among the
  source files and the spec does not describe it, so the record keeps the fields that
  the code of the grid reads. \<open>field\<close> is the list of paths of the column's cells; a
  matcher or a sorter is a function of its arguments alone.
\<close>

record Column =
  field :: "string list"
  searchable :: bool
  sortable :: bool
  matcher :: "(string \<Rightarrow> jsval list \<Rightarrow> bool) option"
  sorter :: "(jsval \<Rightarrow> jsval \<Rightarrow> int) option"

datatype SortOrder = asc | desc

datatype SelectionMode = none | single | multiple

record GridDataRequest =
  skip :: jsnum
  take_n :: jsnum
  req_sortColumn :: "Column option"
  req_sortOrder :: "SortOrder option"
  req_filter :: string

record GridDataResponse =
  items :: "jsval list option"
  res_filteredCount :: jsnum
  res_totalCount :: jsnum

text \<open>
  The bound \<^verbatim>\<open>loadData\<close>: the default of the class, a delegate of the application
  (a function of the request), or nothing.
\<close>

datatype Loader =
    DefaultLoadData
  | CustomLoadData "GridDataRequest \<Rightarrow> GridDataResponse"
  | NoLoadData

text \<open>
  The body element as far as the grid touches it: its scroll geometry, its class
  list, the two border widths of its computed style and the number of scroll
  listeners registered on it.
\<close>

record Element =
  scrollHeight :: jsnum
  offsetHeight :: jsnum
  scrollTop :: jsnum
  classList :: "string list"
  borderTopWidth :: string
  borderBottomWidth :: string
  scrollListeners :: nat

text \<open>\<^verbatim>\<open>classList.add\<close> and \<^verbatim>\<open>classList.remove\<close>: the list holds a class once.\<close>

definition classList_add :: "string \<Rightarrow> Element \<Rightarrow> Element" where
  "classList_add c e =
     (if c \<in> set (classList e) then e else e\<lparr>classList := classList e @ [c]\<rparr>)"

definition classList_remove :: "string \<Rightarrow> Element \<Rightarrow> Element" where
  "classList_remove c e = e\<lparr>classList := removeAll c (classList e)\<rparr>"

record Body =
  scrollListener :: bool
  borderHeight :: "jsnum option"

record SelectionDetail =
  detail_selectedItem :: jsval
  detail_selectedItems :: "jsval list option"

record CustomEvent =
  name :: string
  detail :: "SelectionDetail option"

text \<open>A callback handed to \<^verbatim>\<open>setTimeout\<close> that has not run yet.\<close>

datatype Task = DispatchSelectionChanged

text \<open>
  The fields of the grid. \<open>LOCALE\<close> stands for the collation that
  \<^verbatim>\<open>localeCompare\<close> applies under \<^verbatim>\<open>Grid.LOCALE\<close>; \<open>timers\<close> are the pending
  callbacks and \<open>dispatched\<close> the events dispatched on the grid element so far.
\<close>

record Grid =
  LOCALE :: "string \<Rightarrow> string \<Rightarrow> int"
  loadData :: Loader
  comparer :: "jsval \<Rightarrow> jsval \<Rightarrow> bool"
  columns :: "Column list"
  rows :: "jsval list option"
  totalCount :: jsnum
  filteredCount :: jsnum
  currentIndex :: jsnum
  pageSize :: jsnum
  selectedItem :: jsval
  selectedItems :: "jsval list option"
  selectionMode :: SelectionMode
  enabled :: bool
  filter_str :: string
  sortColumn :: "Column option"
  sortOrder :: "SortOrder option"
  autoInit :: bool
  actualRows :: "jsval list option"
  displayedRows :: "jsval list option"
  dirty :: bool
  isBound :: bool
  refreshingGrid :: bool
  rendered :: bool
  bodyElement :: "Element option"
  body :: Body
  timers :: "Task list"
  dispatched :: "CustomEvent list"

subsection \<open>Local row filtering\<close>

text \<open>
  \<^verbatim>\<open>getObjectValueFromPath\<close>: the path is cut at its dots and followed from the row;
  a value that is not truthy ends the walk with undefined.
\<close>

definition getObjectValueFromPath :: "string \<Rightarrow> jsval \<Rightarrow> jsval" where
  "getObjectValueFromPath fld obj =
     foldl (\<lambda>result part. if truthy result then get_prop result part else Undefined)
       obj (split CHR ''.'' fld)"

text \<open>The callback of \<^verbatim>\<open>columns.some\<close> in \<^verbatim>\<open>filterItems\<close>.\<close>

definition columnMatches :: "string \<Rightarrow> jsval \<Rightarrow> Column \<Rightarrow> bool" where
  "columnMatches t row column =
     (if \<not> searchable column then False
      else (let values = map (\<lambda>veld. getObjectValueFromPath veld row) (field column)
            in case matcher column of
                 Some m \<Rightarrow> m t values
               | None \<Rightarrow> list_ex (\<lambda>v. indexOf (toLowerCase (String v)) t \<noteq> - 1) values))"

text \<open>The callback of \<^verbatim>\<open>items.filter\<close>: every term is matched by some column.\<close>

definition rowMatches :: "Grid \<Rightarrow> string list \<Rightarrow> jsval \<Rightarrow> bool" where
  "rowMatches g terms row = list_all (\<lambda>t. list_ex (columnMatches t row) (columns g)) terms"

definition filterItems :: "Grid \<Rightarrow> jsval list \<Rightarrow> jsval list" where
  "filterItems g its =
     (let term = (if filter_str g \<noteq> [] then trim (toLowerCase (filter_str g)) else []);
          terms = split CHR '' '' term
      in if term = [] then its else filter (rowMatches g terms) its)"

subsection \<open>Local row sorting\<close>

text \<open>
  \<^verbatim>\<open>Array.prototype.sort\<close> with a comparison function. Undefined elements go to the
  end without the function being called. The standard fixes the result only for a
  consistent comparison function, and then up to the order of the elements that
  compare equal; the model is the stable insertion sort.
\<close>

definition SortCompare :: "(jsval \<Rightarrow> jsval \<Rightarrow> int) \<Rightarrow> jsval \<Rightarrow> jsval \<Rightarrow> int" where
  "SortCompare comparefn x y =
     (if x = Undefined \<and> y = Undefined then 0
      else if x = Undefined then 1
      else if y = Undefined then - 1
      else comparefn x y)"

fun sort_insert :: "(jsval \<Rightarrow> jsval \<Rightarrow> int) \<Rightarrow> jsval \<Rightarrow> jsval list \<Rightarrow> jsval list" where
  "sort_insert comparefn x [] = [x]"
| "sort_insert comparefn x (y # ys) =
     (if SortCompare comparefn x y \<le> 0 then x # y # ys
      else y # sort_insert comparefn x ys)"

definition Array_sort :: "(jsval \<Rightarrow> jsval \<Rightarrow> int) \<Rightarrow> jsval list \<Rightarrow> jsval list" where
  "Array_sort comparefn xs = foldr (sort_insert comparefn) xs []"

text \<open>\<^verbatim>\<open>xs[i]\<close>: undefined outside the array.\<close>

definition Array_at :: "jsval list \<Rightarrow> nat \<Rightarrow> jsval" where
  "Array_at xs i = (if i < length xs then xs ! i else Undefined)"

text \<open>
  \<^verbatim>\<open>defaultCompare\<close>: the loop runs over the positions of \<open>aValues\<close>; the head of
  \<open>bValues\<close> is the value at the same position, undefined when \<open>bValues\<close> is shorter.
\<close>

fun defaultCompare :: "(string \<Rightarrow> string \<Rightarrow> int) \<Rightarrow> jsval list \<Rightarrow> jsval list \<Rightarrow> int" where
  "defaultCompare lc [] bValues = 0"
| "defaultCompare lc (a # aValues) bValues =
     (let b = Array_at bValues 0
      in if a = Undefined \<and> b \<noteq> Undefined then - 1
         else if b = Undefined \<and> a \<noteq> Undefined then 1
         else (case a of
                 JStr s \<Rightarrow>
                   (let comp = lc s (String b)
                    in if comp \<noteq> 0 then comp else defaultCompare lc aValues (tl bValues))
               | _ \<Rightarrow>
                   (if \<not> strict_eq a b then (if value_lt a b then - 1 else 1)
                    else defaultCompare lc aValues (tl bValues))))"

definition orderMultiplier :: "Grid \<Rightarrow> int" where
  "orderMultiplier g = (if sortOrder g = Some asc then 1 else - 1)"

text \<open>The two comparison functions that \<^verbatim>\<open>sortItems\<close> hands to \<^verbatim>\<open>sort\<close>.\<close>

definition sorterCompare :: "Grid \<Rightarrow> (jsval \<Rightarrow> jsval \<Rightarrow> int) \<Rightarrow> jsval \<Rightarrow> jsval \<Rightarrow> int" where
  "sorterCompare g srt a b = srt a b * orderMultiplier g"

definition fieldCompare :: "Grid \<Rightarrow> string list \<Rightarrow> jsval \<Rightarrow> jsval \<Rightarrow> int" where
  "fieldCompare g flds aRow bRow =
     (let aValues = map (\<lambda>fld. getObjectValueFromPath fld aRow) flds;
          bValues = map (\<lambda>fld. getObjectValueFromPath fld bRow) flds
      in defaultCompare (LOCALE g) aValues bValues * orderMultiplier g)"

text \<open>
  \<^verbatim>\<open>sortItems\<close> on the contents of the array: \<^verbatim>\<open>items.slice()\<close> copies the array,
  which leaves the contents as they are (the copy is explicit in \<open>sortItems_h\<close> below).
\<close>

definition sortItems :: "Grid \<Rightarrow> jsval list \<Rightarrow> jsval list" where
  "sortItems g its =
     (case sortColumn g of
        Some column \<Rightarrow>
          (case sorter column of
             Some srt \<Rightarrow> Array_sort (sorterCompare g srt) its
           | None \<Rightarrow> Array_sort (fieldCompare g (field column)) its)
      | None \<Rightarrow> its)"

subsection \<open>Pagination and loading\<close>

definition pageCount :: "Grid \<Rightarrow> jsnum" where
  "pageCount g =
     Math_ceil (js_div (if js_gt (filteredCount g) (Num 0) then filteredCount g else Num 1)
                       (pageSize g))"

definition getPageNumberForIndex :: "Grid \<Rightarrow> jsnum \<Rightarrow> jsnum" where
  "getPageNumberForIndex g index = Math_floor (js_div index (pageSize g))"

definition currentPage :: "Grid \<Rightarrow> jsnum" where
  "currentPage g = getPageNumberForIndex g (currentIndex g)"

definition getCurrentGridDataRequest :: "Grid \<Rightarrow> GridDataRequest" where
  "getCurrentGridDataRequest g =
     \<lparr>skip = js_mul (pageSize g) (currentPage g),
      take_n = pageSize g,
      req_sortColumn = sortColumn g,
      req_sortOrder = sortOrder g,
      req_filter = filter_str g\<rparr>"

text \<open>The default value of \<^verbatim>\<open>loadData\<close>.\<close>

definition default_loadData :: "Grid \<Rightarrow> GridDataRequest \<Rightarrow> GridDataResponse" where
  "default_loadData g request =
     \<lparr>items = (case actualRows g of
                 Some ar \<Rightarrow> Some (Array_slice ar (skip request) (js_add (skip request) (take_n request)))
               | None \<Rightarrow> None),
      res_filteredCount = (case actualRows g of Some ar \<Rightarrow> Array_length ar | None \<Rightarrow> Num (- 1)),
      res_totalCount = (case rows g of Some r \<Rightarrow> Array_length r | None \<Rightarrow> Num (- 1))\<rparr>"

fun has_loadData :: "Loader \<Rightarrow> bool" where
  "has_loadData NoLoadData = False"
| "has_loadData l = True"

text \<open>
  The call \<^verbatim>\<open>this.loadData(request)\<close>; the promise it returns is awaited at once.
  \<^verbatim>\<open>refreshInternal\<close> returns before the call when nothing is bound.
\<close>

definition call_loadData :: "Grid \<Rightarrow> GridDataRequest \<Rightarrow> GridDataResponse" where
  "call_loadData g request =
     (case loadData g of
        CustomLoadData f \<Rightarrow> f request
      | _ \<Rightarrow> default_loadData g request)"

text \<open>The part of \<^verbatim>\<open>refreshInternal\<close> that resets the body element after a load.\<close>

definition reset_body :: "Grid \<Rightarrow> Grid" where
  "reset_body g =
     (case bodyElement g of
        None \<Rightarrow> g
      | Some e \<Rightarrow>
          (let e1 = (if scrollListener (body g)
                     then e\<lparr>scrollListeners := scrollListeners e - 1\<rparr> else e);
               e2 = e1\<lparr>scrollTop := Num 0\<rparr>;
               e3 = classList_add ''scrollable-bottom'' e2;
               e4 = e3\<lparr>scrollListeners := Suc (scrollListeners e3)\<rparr>
           in g\<lparr>bodyElement := Some e4, body := (body g)\<lparr>scrollListener := True\<rparr>\<rparr>))"

text \<open>
  The block of \<^verbatim>\<open>refreshInternal\<close> that runs when no refresh is under way, from
  the setting of \<^verbatim>\<open>refreshingGrid\<close> to its clearing: the data is asked for and
  stored, and \<^verbatim>\<open>currentIndex\<close> goes back to \<open>0\<close> when it lies beyond the rows.
\<close>

definition refresh_load :: "Grid \<Rightarrow> Grid" where
  "refresh_load g1 =
     (let g2 = g1\<lparr>refreshingGrid := True\<rparr>;
          result = call_loadData g2 (getCurrentGridDataRequest g2);
          g3 = g2\<lparr>totalCount := res_totalCount result,
                  filteredCount := res_filteredCount result,
                  displayedRows := items result\<rparr>;
          g4 = (if \<not> js_eq (filteredCount g3) (Num (- 1))
                   \<and> js_gt (currentIndex g3) (filteredCount g3)
                then g3\<lparr>currentIndex := Num 0\<rparr> else g3);
          g5 = reset_body g4
      in g5\<lparr>rendered := True, refreshingGrid := False\<rparr>)"

text \<open>The first statement of \<^verbatim>\<open>refreshInternal\<close>.\<close>

definition with_actualRows :: "Grid \<Rightarrow> Grid" where
  "with_actualRows g =
     g\<lparr>actualRows := (case rows g of
                        Some r \<Rightarrow> Some (sortItems g (filterItems g r))
                      | None \<Rightarrow> None)\<rparr>"

text \<open>
  \<^verbatim>\<open>refreshInternal\<close>, run without interruption: each \<^verbatim>\<open>await\<close> continues at once,
  so no other call runs between the request and its answer.
\<close>

function refreshInternal :: "Grid \<Rightarrow> Grid" where
  "refreshInternal g =
     (let g1 = with_actualRows g
      in if \<not> autoInit g1 \<or> \<not> has_loadData (loadData g1) \<or> \<not> isBound g1
            \<or> js_eq (pageSize g1) (Num 0)
         then g1
         else if \<not> refreshingGrid g1 then
           (let g6 = refresh_load g1
            in if dirty g6 then refreshInternal (g6\<lparr>dirty := False\<rparr>) else g6)
         else g1\<lparr>dirty := True\<rparr>)"
  by pat_completeness auto
termination
proof (relation "measure (\<lambda>g. if dirty g then 1 else 0)")
  show "wf (measure (\<lambda>g. if dirty g then (1::nat) else 0))"
    by simp
next
  fix g g1 g6 :: Grid
  assume "g1 = with_actualRows g"
    and "g6 = refresh_load g1"
    and "dirty g6"
  then have "dirty g"
    by (auto simp: with_actualRows_def refresh_load_def reset_body_def Let_def
        split: option.splits if_splits)
  then show "(g6\<lparr>dirty := False\<rparr>, g) \<in> measure (\<lambda>g. if dirty g then 1 else 0)"
    by simp
qed

declare refreshInternal.simps [simp del]

definition showPage :: "Grid \<Rightarrow> jsnum \<Rightarrow> bool \<times> Grid" where
  "showPage g pageNumber =
     (if \<not> js_eq pageNumber (currentPage g) \<and> js_ge pageNumber (Num 0)
         \<and> js_lt pageNumber (pageCount g)
      then (True, refreshInternal (g\<lparr>currentIndex := js_mul (pageSize g) pageNumber\<rparr>))
      else (False, g))"

subsection \<open>Selection\<close>

text \<open>The default value of \<^verbatim>\<open>comparer\<close>.\<close>

definition default_comparer :: "jsval \<Rightarrow> jsval \<Rightarrow> bool" where
  "default_comparer a b =
     (if truthy a \<and> truthy (get_prop a ''id'') \<and> truthy b \<and> truthy (get_prop b ''id'')
      then strict_eq (get_prop a ''id'') (get_prop b ''id'')
      else strict_eq a b)"

text \<open>
  \<^verbatim>\<open>dispatchSelectionChangedEvent\<close> hands its callback to \<^verbatim>\<open>setTimeout\<close>; the
  callback reads the selection when it runs.
\<close>

definition dispatchSelectionChangedEvent :: "Grid \<Rightarrow> Grid" where
  "dispatchSelectionChangedEvent g = g\<lparr>timers := timers g @ [DispatchSelectionChanged]\<rparr>"

fun run_task :: "Task \<Rightarrow> Grid \<Rightarrow> Grid" where
  "run_task DispatchSelectionChanged g =
     g\<lparr>dispatched := dispatched g @
          [\<lparr>name = ''selection-changed'',
            detail = Some \<lparr>detail_selectedItem = selectedItem g,
                           detail_selectedItems = selectedItems g\<rparr>\<rparr>]\<rparr>"

text \<open>The pending callbacks run in the order in which they were set.\<close>

definition run_timers :: "Grid \<Rightarrow> Grid" where
  "run_timers g = foldl (\<lambda>s t. run_task t s) (g\<lparr>timers := []\<rparr>) (timers g)"

definition selectRow :: "Grid \<Rightarrow> jsval \<Rightarrow> Grid" where
  "selectRow g row =
     (if enabled g then
        (if selectionMode g = single then
           dispatchSelectionChangedEvent
             (g\<lparr>selectedItem := (if comparer g (selectedItem g) row then Undefined else row)\<rparr>)
         else if selectionMode g = multiple then
           (let sel = (case selectedItems g of
                         Some si \<Rightarrow>
                           (if length (filter (\<lambda>a. comparer g a row) si) > 0
                            then filter (\<lambda>i. \<not> comparer g i row) si
                            else si @ [row])
                       | None \<Rightarrow> [row]);
                g1 = g\<lparr>selectedItems := Some sel\<rparr>;
                g2 = g1\<lparr>selectedItem := (if length sel \<le> 1 then Array_at sel 0 else Undefined)\<rparr>
            in dispatchSelectionChangedEvent g2)
         else g)
      else g)"

definition isSelected :: "Grid \<Rightarrow> jsval \<Rightarrow> jsval list option \<Rightarrow> jsval \<Rightarrow> bool" where
  "isSelected g selItem selItems item =
     (case selItems of
        None \<Rightarrow> False
      | Some si \<Rightarrow> comparer g selItem item \<or> length (filter (\<lambda>a. comparer g a item) si) > 0)"

subsection \<open>Scroll edges\<close>

text \<open>
  \<^verbatim>\<open>onBodyScroll\<close> is the listener of the body element, so the element exists when it
  runs; without one the model leaves the grid as it is.
\<close>

definition onBodyScroll :: "Grid \<Rightarrow> Grid" where
  "onBodyScroll g =
     (case bodyElement g of
        None \<Rightarrow> g
      | Some e \<Rightarrow>
          (let bh = (case borderHeight (body g) of
                       None \<Rightarrow> js_add (js_add (Num 0) (parseInt (borderTopWidth e)))
                                      (parseInt (borderBottomWidth e))
                     | Some h \<Rightarrow> h);
               g1 = g\<lparr>body := (body g)\<lparr>borderHeight := Some bh\<rparr>\<rparr>;
               scrollBottom = js_add (js_sub (scrollHeight e) (offsetHeight e)) bh
           in if js_eq scrollBottom (Num 0)
              then g1\<lparr>bodyElement :=
                        Some (classList_remove ''scrollable-bottom''
                               (classList_remove ''scrollable-top'' e))\<rparr>
              else
                (let e1 = (if js_eq (scrollTop e) (Num 0)
                           then classList_remove ''scrollable-top'' e
                           else classList_add ''scrollable-top'' e);
                     e2 = (if js_eq (scrollTop e1) scrollBottom
                           then classList_remove ''scrollable-bottom'' e1
                           else classList_add ''scrollable-bottom'' e1)
                 in g1\<lparr>bodyElement := Some e2\<rparr>)))"

subsection \<open>The state of a new grid\<close>

text \<open>The field initialisers of the class; the collation is the platform's.\<close>

definition new_Grid :: "(string \<Rightarrow> string \<Rightarrow> int) \<Rightarrow> Grid" where
  "new_Grid lc =
     \<lparr>LOCALE = lc, loadData = DefaultLoadData, comparer = default_comparer,
      columns = [], rows = None,
      totalCount = Num (- 1), filteredCount = Num (- 1), currentIndex = Num 0, pageSize = Num 0,
      selectedItem = Undefined, selectedItems = Some [], selectionMode = none, enabled = True,
      filter_str = [], sortColumn = None, sortOrder = None, autoInit = True,
      actualRows = None, displayedRows = None,
      dirty = False, isBound = False, refreshingGrid = False, rendered = False,
      bodyElement = None, body = \<lparr>scrollListener = False, borderHeight = None\<rparr>,
      timers = [], dispatched = []\<rparr>"

subsection \<open>Arrays as objects\<close>

text \<open>
  To follow which array a method returns and which one it writes, the arrays live in
  a heap: a reference is a position in the heap, a new array is put at its end.
  \<^verbatim>\<open>filter\<close> and \<^verbatim>\<open>slice\<close> make a new array, \<^verbatim>\<open>sort\<close> writes the array it is
  called on and returns it.
\<close>

type_synonym heap = "jsval list list"

definition Array_filter_h :: "(jsval \<Rightarrow> bool) \<Rightarrow> heap \<Rightarrow> nat \<Rightarrow> nat \<times> heap" where
  "Array_filter_h p h a = (length h, h @ [filter p (h ! a)])"

definition Array_slice_h :: "heap \<Rightarrow> nat \<Rightarrow> nat \<times> heap" where
  "Array_slice_h h a = (length h, h @ [h ! a])"

definition Array_sort_h :: "(jsval \<Rightarrow> jsval \<Rightarrow> int) \<Rightarrow> heap \<Rightarrow> nat \<Rightarrow> nat \<times> heap" where
  "Array_sort_h comparefn h a = (a, h[a := Array_sort comparefn (h ! a)])"

definition filterItems_h :: "Grid \<Rightarrow> heap \<Rightarrow> nat \<Rightarrow> nat \<times> heap" where
  "filterItems_h g h its =
     (let term = (if filter_str g \<noteq> [] then trim (toLowerCase (filter_str g)) else []);
          terms = split CHR '' '' term
      in if term = [] then (its, h) else Array_filter_h (rowMatches g terms) h its)"

definition sortItems_h :: "Grid \<Rightarrow> heap \<Rightarrow> nat \<Rightarrow> nat \<times> heap" where
  "sortItems_h g h its =
     (case sortColumn g of
        Some column \<Rightarrow>
          (case sorter column of
             Some srt \<Rightarrow>
               (let (c, h1) = Array_slice_h h its in Array_sort_h (sorterCompare g srt) h1 c)
           | None \<Rightarrow>
               (let (c, h1) = Array_slice_h h its
                in Array_sort_h (fieldCompare g (field column)) h1 c))
      | None \<Rightarrow> (its, h))"

text \<open>
  The first statement of \<^verbatim>\<open>refreshInternal\<close>, with \<open>rowsRef\<close> the array bound to
  \<^verbatim>\<open>rows\<close>: the reference stored in \<^verbatim>\<open>actualRows\<close> and the heap afterwards.
\<close>

definition compute_actualRows_h :: "Grid \<Rightarrow> heap \<Rightarrow> nat option \<Rightarrow> nat option \<times> heap" where
  "compute_actualRows_h g h rowsRef =
     (case rowsRef of
        None \<Rightarrow> (None, h)
      | Some r \<Rightarrow>
          (let (f, h1) = filterItems_h g h r;
               (s, h2) = sortItems_h g h1 f
           in (Some s, h2)))"

section \<open>The tabs\<close>

text \<open>
  Modelled from the spec: the class \<^verbatim>\<open>Tab\<close> (module \<^verbatim>\<open>./tab\<close>) is not among the source
  files and the spec does not describe it, so the record keeps the two fields that the
  code of the tabs reads and writes.
\<close>

record Tab =
  tab_id :: string
  active :: bool

datatype Error = Error string

text \<open>
  A tab is an object that the container and the page share: \<open>store\<close> gives the
  object behind each reference, and the lists hold references.
\<close>

record Tabs =
  store :: "nat \<Rightarrow> Tab"
  selectedTab :: "nat option"
  tabs :: "nat list option"
  selectedTabId :: string
  internalTabs :: "nat list"

text \<open>
  \<^verbatim>\<open>selectTab\<close> returns the error it throws, if any, next to the state it leaves.
\<close>

definition selectTab :: "Tabs \<Rightarrow> nat \<Rightarrow> Error option \<times> Tabs" where
  "selectTab st tab =
     (if find (\<lambda>t. t = tab) (internalTabs st) \<noteq> None then
        (let st1 = st\<lparr>store := foldl (\<lambda>s t. s(t := (s t)\<lparr>active := (t = tab)\<rparr>))
                                     (store st) (internalTabs st)\<rparr>
         in if selectedTabId st1 \<noteq> tab_id (store st1 tab)
            then (None, st1\<lparr>selectedTab := Some tab, selectedTabId := tab_id (store st1 tab)\<rparr>)
            else (None, st1))
      else (Some (Error ''Tab could not be found.''), st))"





section \<open>The search box\<close>

record Searchbox =
  value_sb :: string
  enabled_sb :: bool
  allowEmpty :: bool
  dispatched_sb :: "CustomEvent list"

definition onClick :: "Searchbox \<Rightarrow> Searchbox" where
  "onClick s =
     (if enabled_sb s \<and> (value_sb s \<noteq> [] \<or> allowEmpty s)
      then s\<lparr>dispatched_sb := dispatched_sb s @ [\<lparr>name = ''click'', detail = None\<rparr>]\<rparr>
      else s)"

section \<open>Notions used to state the properties\<close>







text \<open>
  A refresh asks for data when the grid is initialised and bound, a loader is set,
  the page size is not \<open>0\<close> and no other refresh is under way.
\<close>

definition loads :: "Grid \<Rightarrow> bool" where
  "loads g = (autoInit g \<and> has_loadData (loadData g) \<and> isBound g
              \<and> \<not> js_eq (pageSize g) (Num 0) \<and> \<not> refreshingGrid g)"

section \<open>Strings: what the helpers compute\<close>












section \<open>Filtering\<close>









section \<open>Sorting\<close>















section \<open>Pagination\<close>

lemma Array_slice_page:
  "Array_slice xs (Num (of_nat k)) (js_add (Num (of_nat k)) (Num (of_nat n))) = take n (drop k xs)"
proof -
  have a: "relative_index (length xs) (Num (of_nat k)) = min k (length xs)"
    by (simp add: relative_index_def Let_def)
  have "relative_index (length xs) (Num (of_nat (k + n))) = min (k + n) (length xs)"
    by (simp add: relative_index_def Let_def del: of_nat_add)
  then have b: "relative_index (length xs) (Num (of_nat k + of_nat n)) = min (k + n) (length xs)"
    by simp
  show ?thesis
  proof (cases "k < length xs")
    case True
    then show ?thesis
      by (cases "k + n \<le> length xs") (simp_all add: Array_slice_def a b Let_def min_def)
  next
    case False
    then show ?thesis
      by (simp add: Array_slice_def a b Let_def min_def)
  qed
qed

lemma pageCount_finite:
  "filteredCount g = Num n \<Longrightarrow> pageSize g = Num s \<Longrightarrow> s \<noteq> 0 \<Longrightarrow>
     pageCount g = Num (of_int \<lceil>(if 0 < n then n else 1) / s\<rceil>)"
  by (simp add: pageCount_def js_gt_def)

lemma pageCount_zero:
  "filteredCount g = Num n \<Longrightarrow> pageSize g = Num 0 \<Longrightarrow> pageCount g = PosInfinity"
  by (simp add: pageCount_def js_gt_def signed_infinity_def)

lemma currentPage_finite:
  "currentIndex g = Num i \<Longrightarrow> pageSize g = Num s \<Longrightarrow> s \<noteq> 0 \<Longrightarrow>
     currentPage g = Num (of_int \<lfloor>i / s\<rfloor>)"
  by (simp add: currentPage_def getPageNumberForIndex_def)

text \<open>
  C3: \<open>pageCount\<close> is the ceiling of \<open>filteredCount / pageSize\<close> when
  \<open>filteredCount\<close> is positive and of \<open>1 / pageSize\<close> otherwise; \<open>currentPage\<close> is
  the floor of \<open>currentIndex / pageSize\<close>; the request has \<open>skip = pageSize *
  currentPage\<close> and \<open>take = pageSize\<close>; and the default \<open>loadData\<close> answers with the
  slice of \<open>actualRows\<close> from \<open>skip\<close> to \<open>skip + take\<close>, the length of \<open>actualRows\<close>
  and the length of \<open>rows\<close>, \<open>-1\<close> standing for an array that is undefined. For
  natural numbers the slice is the \<open>take\<close> rows that follow the first \<open>skip\<close>; with a
  page size of \<open>0\<close>, as in a new grid, \<open>pageCount\<close> is infinite.
\<close>

theorem pagination_and_default_loadData:
  "pageCount g =
     Math_ceil (js_div (if js_gt (filteredCount g) (Num 0) then filteredCount g else Num 1)
                       (pageSize g))
   \<and> (filteredCount g = Num n \<and> pageSize g = Num s \<and> s \<noteq> 0 \<longrightarrow>
         pageCount g = Num (of_int \<lceil>(if 0 < n then n else 1) / s\<rceil>))
   \<and> (filteredCount g = Num n \<and> pageSize g = Num 0 \<longrightarrow> pageCount g = PosInfinity)
   \<and> currentPage g = Math_floor (js_div (currentIndex g) (pageSize g))
   \<and> (currentIndex g = Num i \<and> pageSize g = Num s \<and> s \<noteq> 0 \<longrightarrow>
         currentPage g = Num (of_int \<lfloor>i / s\<rfloor>))
   \<and> skip (getCurrentGridDataRequest g) = js_mul (pageSize g) (currentPage g)
   \<and> take_n (getCurrentGridDataRequest g) = pageSize g
   \<and> (loadData g = DefaultLoadData \<longrightarrow>
         items (call_loadData g request) =
           (case actualRows g of
              Some ar \<Rightarrow> Some (Array_slice ar (skip request)
                                 (js_add (skip request) (take_n request)))
            | None \<Rightarrow> None)
         \<and> res_filteredCount (call_loadData g request) =
           (case actualRows g of Some ar \<Rightarrow> Num (of_nat (length ar)) | None \<Rightarrow> Num (- 1))
         \<and> res_totalCount (call_loadData g request) =
           (case rows g of Some r \<Rightarrow> Num (of_nat (length r)) | None \<Rightarrow> Num (- 1)))
   \<and> Array_slice xs (Num (of_nat k)) (js_add (Num (of_nat k)) (Num (of_nat m)))
       = take m (drop k xs)"
proof -
  have pc: "filteredCount g = Num n \<and> pageSize g = Num s \<and> s \<noteq> 0 \<longrightarrow>
         pageCount g = Num (of_int \<lceil>(if 0 < n then n else 1) / s\<rceil>)"
    using pageCount_finite [of g n s] by blast
  have cp: "currentIndex g = Num i \<and> pageSize g = Num s \<and> s \<noteq> 0 \<longrightarrow>
         currentPage g = Num (of_int \<lfloor>i / s\<rfloor>)"
    using currentPage_finite [of g i s] by blast
  have ld: "loadData g = DefaultLoadData \<longrightarrow>
         items (call_loadData g request) =
           (case actualRows g of
              Some ar \<Rightarrow> Some (Array_slice ar (skip request)
                                 (js_add (skip request) (take_n request)))
            | None \<Rightarrow> None)
         \<and> res_filteredCount (call_loadData g request) =
           (case actualRows g of Some ar \<Rightarrow> Num (of_nat (length ar)) | None \<Rightarrow> Num (- 1))
         \<and> res_totalCount (call_loadData g request) =
           (case rows g of Some r \<Rightarrow> Num (of_nat (length r)) | None \<Rightarrow> Num (- 1))"
    by (simp add: call_loadData_def default_loadData_def Array_length_def split: option.splits)
  have rq: "skip (getCurrentGridDataRequest g) = js_mul (pageSize g) (currentPage g)
      \<and> take_n (getCurrentGridDataRequest g) = pageSize g"
    by (simp add: getCurrentGridDataRequest_def)
  have d1: "pageCount g =
     Math_ceil (js_div (if js_gt (filteredCount g) (Num 0) then filteredCount g else Num 1)
                       (pageSize g))"
    by (simp add: pageCount_def)
  have d2: "currentPage g = Math_floor (js_div (currentIndex g) (pageSize g))"
    by (simp add: currentPage_def getPageNumberForIndex_def)
  have pz: "filteredCount g = Num n \<and> pageSize g = Num 0 \<longrightarrow> pageCount g = PosInfinity"
    using pageCount_zero [of g n] by blast
  show ?thesis
    using pc pz cp ld rq d1 d2 Array_slice_page [of xs k m] by blast
qed

text \<open>
  C3 at work: five rows in pages of two, the current index on the fourth row; and
  the page count of a new grid.
\<close>

theorem pagination_and_default_loadData_witness:
  "pageCount
     (new_Grid (\<lambda>x y. 0)
        \<lparr>pageSize := Num 2, filteredCount := Num 5, currentIndex := Num 3,
         rows := Some [JNum 14, JNum 10, JNum 11, JNum 12, JNum 13],
         actualRows := Some [JNum 10, JNum 11, JNum 12, JNum 13, JNum 14]\<rparr>) = Num 3
   \<and> currentPage
     (new_Grid (\<lambda>x y. 0)
        \<lparr>pageSize := Num 2, filteredCount := Num 5, currentIndex := Num 3,
         rows := Some [JNum 14, JNum 10, JNum 11, JNum 12, JNum 13],
         actualRows := Some [JNum 10, JNum 11, JNum 12, JNum 13, JNum 14]\<rparr>) = Num 1
   \<and> call_loadData
     (new_Grid (\<lambda>x y. 0)
        \<lparr>pageSize := Num 2, filteredCount := Num 5, currentIndex := Num 3,
         rows := Some [JNum 14, JNum 10, JNum 11, JNum 12, JNum 13],
         actualRows := Some [JNum 10, JNum 11, JNum 12, JNum 13, JNum 14]\<rparr>)
     \<lparr>skip = Num 2, take_n = Num 2, req_sortColumn = None, req_sortOrder = None,
      req_filter = []\<rparr>
     = \<lparr>items = Some [JNum 12, JNum 13], res_filteredCount = Num 5, res_totalCount = Num 5\<rparr>
   \<and> pageCount (new_Grid (\<lambda>x y. 0)) = PosInfinity"
proof -
  have z0: "filteredCount (new_Grid (\<lambda>x y. 0)) = Num (- 1)
      \<and> pageSize (new_Grid (\<lambda>x y. 0)) = Num 0"
    by (simp add: new_Grid_def)
  have z: "pageCount (new_Grid (\<lambda>x y. 0)) = PosInfinity"
    using pagination_and_default_loadData [where g = "new_Grid (\<lambda>x y. 0)" and n = "- 1"] z0
    by blast
  define g where "g = new_Grid (\<lambda>x y. 0)
        \<lparr>pageSize := Num 2, filteredCount := Num 5, currentIndex := Num 3,
         rows := Some [JNum 14, JNum 10, JNum 11, JNum 12, JNum 13],
         actualRows := Some [JNum 10, JNum 11, JNum 12, JNum 13, JNum 14]\<rparr>"
  define request where "request = \<lparr>skip = Num 2, take_n = Num 2, req_sortColumn = None,
      req_sortOrder = None, req_filter = []\<rparr>"
  have h: "filteredCount g = Num 5" "pageSize g = Num 2" "currentIndex g = Num 3"
    "loadData g = DefaultLoadData"
    "actualRows g = Some [JNum 10, JNum 11, JNum 12, JNum 13, JNum 14]"
    "rows g = Some [JNum 14, JNum 10, JNum 11, JNum 12, JNum 13]"
    by (simp_all add: g_def new_Grid_def)
  have c: "\<lceil>(5::rat) / 2\<rceil> = 3" "\<lfloor>(3::rat) / 2\<rfloor> = 1"
    by code_simp+
  note t = pagination_and_default_loadData
      [where g = g and n = 5 and s = 2 and i = 3 and request = request
         and xs = "[JNum 10, JNum 11, JNum 12, JNum 13, JNum 14]" and k = 2 and m = 2]
  have sl: "Array_slice [JNum 10, JNum 11, JNum 12, JNum 13, JNum 14] (Num 2) (js_add (Num 2) (Num 2))
      = [JNum 12, JNum 13]"
    using t by simp
  have p: "pageCount g = Num 3"
    using t h c by (simp add: js_gt_def)
  have q: "currentPage g = Num 1"
    using t h c by (simp add: js_gt_def)
  have r: "call_loadData g request
     = \<lparr>items = Some [JNum 12, JNum 13], res_filteredCount = Num 5, res_totalCount = Num 5\<rparr>"
    using t h sl by (simp add: request_def)
  show ?thesis
    using p q r z unfolding g_def request_def by blast
qed

section \<open>Selection\<close>

text \<open>
  C4: with the grid enabled, a click in single mode sets \<open>selectedItem\<close> to undefined
  when the row equals the current \<open>selectedItem\<close> under the comparer and to the row
  otherwise; a click in multiple mode removes the row from \<open>selectedItems\<close> when some
  element equals it under the comparer and appends it to a copy otherwise (an
  undefined \<open>selectedItems\<close> becomes the array of the row), and then \<open>selectedItem\<close>
  is \<open>selectedItems[0]\<close> when \<open>selectedItems\<close> has at most one element and undefined
  otherwise. A disabled grid, or one in mode none, stays as it is.
\<close>

theorem selectRow_reconciles:
  "(enabled g \<and> selectionMode g = single \<longrightarrow>
      selectedItem (selectRow g row) = (if comparer g (selectedItem g) row then Undefined else row)
      \<and> selectedItems (selectRow g row) = selectedItems g)
   \<and> (enabled g \<and> selectionMode g = multiple \<longrightarrow>
      (\<forall>si. selectedItems g = Some si \<longrightarrow>
         selectedItems (selectRow g row) =
           Some (if \<exists>a \<in> set si. comparer g a row
                 then filter (\<lambda>i. \<not> comparer g i row) si
                 else si @ [row]))
      \<and> (selectedItems g = None \<longrightarrow> selectedItems (selectRow g row) = Some [row])
      \<and> (\<exists>sel. selectedItems (selectRow g row) = Some sel
            \<and> selectedItem (selectRow g row) =
                (if length sel \<le> 1 then Array_at sel 0 else Undefined)))
   \<and> (\<not> enabled g \<or> selectionMode g = none \<longrightarrow> selectRow g row = g)"
  by (cases "selectedItems g")
     (auto simp: selectRow_def dispatchSelectionChangedEvent_def Let_def filter_empty_conv)

text \<open>
  C4 at work: in multiple mode a click on a row with the id of a selected row removes
  that row, and the one row left becomes \<open>selectedItem\<close>; in single mode a click on
  the selected row clears the selection and a click on another row selects it; a
  disabled grid does not change.
\<close>

theorem selectRow_reconciles_witness:
  "selectedItems
     (selectRow
        (new_Grid (\<lambda>x y. 0)
           \<lparr>selectionMode := multiple,
            selectedItems := Some [JObj 1 [(''id'', JNum 7)], JObj 2 [(''id'', JNum 8)]]\<rparr>)
        (JObj 3 [(''id'', JNum 8)]))
     = Some [JObj 1 [(''id'', JNum 7)]]
   \<and> selectedItem
     (selectRow
        (new_Grid (\<lambda>x y. 0)
           \<lparr>selectionMode := multiple,
            selectedItems := Some [JObj 1 [(''id'', JNum 7)], JObj 2 [(''id'', JNum 8)]]\<rparr>)
        (JObj 3 [(''id'', JNum 8)]))
     = JObj 1 [(''id'', JNum 7)]
   \<and> selectedItem
     (selectRow (new_Grid (\<lambda>x y. 0)\<lparr>selectionMode := single, selectedItem := JNum 4\<rparr>) (JNum 4))
     = Undefined
   \<and> selectedItem
     (selectRow (new_Grid (\<lambda>x y. 0)\<lparr>selectionMode := single, selectedItem := JNum 4\<rparr>) (JNum 5))
     = JNum 5
   \<and> selectRow (new_Grid (\<lambda>x y. 0)\<lparr>selectionMode := multiple, enabled := False\<rparr>) (JNum 5)
     = new_Grid (\<lambda>x y. 0)\<lparr>selectionMode := multiple, enabled := False\<rparr>"
proof -
  define g where "g = new_Grid (\<lambda>x y. 0)
           \<lparr>selectionMode := multiple,
            selectedItems := Some [JObj 1 [(''id'', JNum 7)], JObj 2 [(''id'', JNum 8)]]\<rparr>"
  define row where "row = JObj 3 [(''id'', JNum 8)]"
  have h: "enabled g" "selectionMode g = multiple" "comparer g = default_comparer"
    "selectedItems g = Some [JObj 1 [(''id'', JNum 7)], JObj 2 [(''id'', JNum 8)]]"
    by (simp_all add: g_def new_Grid_def)
  have cmp: "\<not> default_comparer (JObj 1 [(''id'', JNum 7)]) row"
    "default_comparer (JObj 2 [(''id'', JNum 8)]) row"
    by (simp_all add: default_comparer_def row_def)
  note t = selectRow_reconciles [where g = g and row = row]
  have a: "selectedItems (selectRow g row) = Some [JObj 1 [(''id'', JNum 7)]]"
    using t h cmp by simp
  have b: "selectedItem (selectRow g row) = JObj 1 [(''id'', JNum 7)]"
    using t h a by (auto simp: Array_at_def)
  define g1 where "g1 = new_Grid (\<lambda>x y. 0)\<lparr>selectionMode := single, selectedItem := JNum 4\<rparr>"
  have h1: "enabled g1" "selectionMode g1 = single" "comparer g1 = default_comparer"
    "selectedItem g1 = JNum 4"
    by (simp_all add: g1_def new_Grid_def)
  have c: "selectedItem (selectRow g1 (JNum 4)) = Undefined"
    using selectRow_reconciles [where g = g1 and row = "JNum 4"] h1
    by (simp add: default_comparer_def)
  have d: "selectedItem (selectRow g1 (JNum 5)) = JNum 5"
    using selectRow_reconciles [where g = g1 and row = "JNum 5"] h1
    by (simp add: default_comparer_def)
  have e: "selectRow (new_Grid (\<lambda>x y. 0)\<lparr>selectionMode := multiple, enabled := False\<rparr>) (JNum 5)
     = new_Grid (\<lambda>x y. 0)\<lparr>selectionMode := multiple, enabled := False\<rparr>"
    using selectRow_reconciles
      [where g = "new_Grid (\<lambda>x y. 0)\<lparr>selectionMode := multiple, enabled := False\<rparr>"
         and row = "JNum 5"]
    by simp
  show ?thesis
    using a b c d e unfolding g_def row_def g1_def by blast
qed

section \<open>Events\<close>

text \<open>
  C5, as the specification states it, fails for the grid: the event is dispatched by a
  callback handed to \<^verbatim>\<open>setTimeout\<close>, which reads the selection when it runs. After
  two calls of \<open>selectRow\<close> in a row, the first for row 1 and the second for row 2, both
  events carry row 2; the selection that resulted from the first call, row 1, is in no
  event.
\<close>

theorem selection_changed_counterexample:
  "selectedItem (selectRow (new_Grid (\<lambda>x y. 0)\<lparr>selectionMode := single\<rparr>) (JNum 1)) = JNum 1
   \<and> dispatched
       (run_timers
          (selectRow (selectRow (new_Grid (\<lambda>x y. 0)\<lparr>selectionMode := single\<rparr>) (JNum 1))
             (JNum 2)))
     = [\<lparr>name = ''selection-changed'',
         detail = Some \<lparr>detail_selectedItem = JNum 2, detail_selectedItems = Some []\<rparr>\<rparr>,
        \<lparr>name = ''selection-changed'',
         detail = Some \<lparr>detail_selectedItem = JNum 2, detail_selectedItems = Some []\<rparr>\<rparr>]"
  by (simp add: selectRow_def new_Grid_def dispatchSelectionChangedEvent_def run_timers_def
      default_comparer_def)

text \<open>
  C5, amended: when \<open>selectRow\<close> runs with the grid enabled and the mode single or
  multiple, it dispatches nothing itself and sets one callback with \<^verbatim>\<open>setTimeout\<close>;
  the callback, when it runs, dispatches on the grid element one event named
  \<open>selection-changed\<close> whose detail carries \<open>selectedItem\<close> and \<open>selectedItems\<close> as they
  are at that moment, which is the selection that resulted from the call when the
  callback runs before anything else. \<open>onClick\<close> of the search box dispatches an event
  named \<open>click\<close> if and only if the search box is enabled and its value is not empty
  or \<open>allowEmpty\<close> is set.
\<close>

theorem selection_changed_and_click_events:
  "(enabled g \<and> (selectionMode g = single \<or> selectionMode g = multiple) \<longrightarrow>
      timers (selectRow g row) = timers g @ [DispatchSelectionChanged]
      \<and> dispatched (selectRow g row) = dispatched g)
   \<and> dispatched (run_task DispatchSelectionChanged s) =
       dispatched s @
         [\<lparr>name = ''selection-changed'',
           detail = Some \<lparr>detail_selectedItem = selectedItem s,
                          detail_selectedItems = selectedItems s\<rparr>\<rparr>]
   \<and> (enabled g \<and> (selectionMode g = single \<or> selectionMode g = multiple) \<and> timers g = [] \<longrightarrow>
      dispatched (run_timers (selectRow g row)) =
        dispatched g @
          [\<lparr>name = ''selection-changed'',
            detail = Some \<lparr>detail_selectedItem = selectedItem (selectRow g row),
                           detail_selectedItems = selectedItems (selectRow g row)\<rparr>\<rparr>])
   \<and> dispatched_sb (onClick sb) =
       (if enabled_sb sb \<and> (value_sb sb \<noteq> [] \<or> allowEmpty sb)
        then dispatched_sb sb @ [\<lparr>name = ''click'', detail = None\<rparr>]
        else dispatched_sb sb)"
  by (auto simp: selectRow_def dispatchSelectionChangedEvent_def run_timers_def Let_def onClick_def)

text \<open>
  The amended C5 at work: one click in single mode, then the pending callback; and the
  search box with an empty value, with and without \<open>allowEmpty\<close>.
\<close>

theorem selection_changed_and_click_events_witness:
  "dispatched
     (run_timers (selectRow (new_Grid (\<lambda>x y. 0)\<lparr>selectionMode := single\<rparr>) (JNum 1)))
     = [\<lparr>name = ''selection-changed'',
         detail = Some \<lparr>detail_selectedItem = JNum 1, detail_selectedItems = Some []\<rparr>\<rparr>]
   \<and> timers (selectRow (new_Grid (\<lambda>x y. 0)\<lparr>selectionMode := single\<rparr>) (JNum 1))
     = [DispatchSelectionChanged]
   \<and> dispatched_sb
       (onClick \<lparr>value_sb = [], enabled_sb = True, allowEmpty = True, dispatched_sb = []\<rparr>)
     = [\<lparr>name = ''click'', detail = None\<rparr>]
   \<and> dispatched_sb
       (onClick \<lparr>value_sb = [], enabled_sb = True, allowEmpty = False, dispatched_sb = []\<rparr>)
     = []"
proof -
  define g where "g = new_Grid (\<lambda>x y. 0)\<lparr>selectionMode := single\<rparr>"
  have h: "enabled g" "selectionMode g = single" "timers g = []" "dispatched g = []"
    by (simp_all add: g_def new_Grid_def)
  have r: "selectedItem (selectRow g (JNum 1)) = JNum 1"
    "selectedItems (selectRow g (JNum 1)) = Some []"
    by (simp_all add: g_def selectRow_def new_Grid_def dispatchSelectionChangedEvent_def
        default_comparer_def)
  note t = selection_changed_and_click_events [where g = g and row = "JNum 1"]
  have a: "dispatched (run_timers (selectRow g (JNum 1)))
     = [\<lparr>name = ''selection-changed'',
         detail = Some \<lparr>detail_selectedItem = JNum 1, detail_selectedItems = Some []\<rparr>\<rparr>]"
    using t h r by simp
  have b: "timers (selectRow g (JNum 1)) = [DispatchSelectionChanged]"
    using t h by simp
  have c: "dispatched_sb
       (onClick \<lparr>value_sb = [], enabled_sb = True, allowEmpty = True, dispatched_sb = []\<rparr>)
     = [\<lparr>name = ''click'', detail = None\<rparr>]"
    using selection_changed_and_click_events
      [where sb = "\<lparr>value_sb = [], enabled_sb = True, allowEmpty = True, dispatched_sb = []\<rparr>"]
    by simp
  have d: "dispatched_sb
       (onClick \<lparr>value_sb = [], enabled_sb = True, allowEmpty = False, dispatched_sb = []\<rparr>)
     = []"
    using selection_changed_and_click_events
      [where sb = "\<lparr>value_sb = [], enabled_sb = True, allowEmpty = False, dispatched_sb = []\<rparr>"]
    by simp
  show ?thesis
    using a b c d unfolding g_def by blast
qed

section \<open>Scroll edges\<close>

lemma classList_add_set: "set (classList (classList_add c e)) = insert c (set (classList e))"
  by (auto simp: classList_add_def)

lemma classList_remove_set: "set (classList (classList_remove c e)) = set (classList e) - {c}"
  by (auto simp: classList_remove_def)

lemma classList_add_fields:
  "scrollTop (classList_add c e) = scrollTop e"
  "scrollHeight (classList_add c e) = scrollHeight e"
  "offsetHeight (classList_add c e) = offsetHeight e"
  by (simp_all add: classList_add_def)

lemma classList_remove_fields:
  "scrollTop (classList_remove c e) = scrollTop e"
  "scrollHeight (classList_remove c e) = scrollHeight e"
  "offsetHeight (classList_remove c e) = offsetHeight e"
  by (simp_all add: classList_remove_def)

text \<open>
  C6: after \<open>onBodyScroll\<close>, with \<open>scrollBottom = scrollHeight - offsetHeight +
  borderHeight\<close> (the border height is the sum of the two parsed border widths, kept
  from the first event on): when \<open>scrollBottom\<close> is \<open>0\<close> the body element carries
  neither \<open>scrollable-top\<close> nor \<open>scrollable-bottom\<close>; otherwise it carries
  \<open>scrollable-top\<close> exactly when \<open>scrollTop\<close> is not \<open>0\<close> and \<open>scrollable-bottom\<close>
  exactly when \<open>scrollTop\<close> is not \<open>scrollBottom\<close>. Its other classes and its
  geometry stay as they are.
\<close>

theorem onBodyScroll_edges:
  "bodyElement g = Some e \<longrightarrow>
     (\<exists>e'. bodyElement (onBodyScroll g) = Some e'
        \<and> (let bh = (case borderHeight (body g) of
                        None \<Rightarrow> js_add (js_add (Num 0) (parseInt (borderTopWidth e)))
                                       (parseInt (borderBottomWidth e))
                      | Some h \<Rightarrow> h);
                scrollBottom = js_add (js_sub (scrollHeight e) (offsetHeight e)) bh
            in (if js_eq scrollBottom (Num 0)
                then ''scrollable-top'' \<notin> set (classList e')
                     \<and> ''scrollable-bottom'' \<notin> set (classList e')
                else (''scrollable-top'' \<in> set (classList e')
                        \<longleftrightarrow> \<not> js_eq (scrollTop e) (Num 0))
                     \<and> (''scrollable-bottom'' \<in> set (classList e')
                        \<longleftrightarrow> \<not> js_eq (scrollTop e) scrollBottom))
               \<and> borderHeight (body (onBodyScroll g)) = Some bh)
        \<and> (\<forall>c. c \<noteq> ''scrollable-top'' \<and> c \<noteq> ''scrollable-bottom'' \<longrightarrow>
              (c \<in> set (classList e') \<longleftrightarrow> c \<in> set (classList e)))
        \<and> scrollTop e' = scrollTop e \<and> scrollHeight e' = scrollHeight e
        \<and> offsetHeight e' = offsetHeight e)"
  by (auto simp: onBodyScroll_def Let_def classList_add_set classList_remove_set
      classList_add_fields classList_remove_fields split: option.splits)

text \<open>
  C6 at work: a body of height 200 with two borders of one pixel and a content of
  height 500 has its bottom at 302; scrolled to the top, it loses \<open>scrollable-top\<close>
  and gets \<open>scrollable-bottom\<close>.
\<close>

theorem onBodyScroll_edges_witness:
  "bodyElement
     (onBodyScroll
        (new_Grid (\<lambda>x y. 0)
           \<lparr>bodyElement := Some
              \<lparr>scrollHeight = Num 500, offsetHeight = Num 200, scrollTop = Num 0,
               classList = [''body'', ''scrollable-top''],
               borderTopWidth = ''1px'', borderBottomWidth = ''1px'', scrollListeners = 1\<rparr>\<rparr>))
     = Some
        \<lparr>scrollHeight = Num 500, offsetHeight = Num 200, scrollTop = Num 0,
         classList = [''body'', ''scrollable-bottom''],
         borderTopWidth = ''1px'', borderBottomWidth = ''1px'', scrollListeners = 1\<rparr>
   \<and> borderHeight
     (body
       (onBodyScroll
        (new_Grid (\<lambda>x y. 0)
           \<lparr>bodyElement := Some
              \<lparr>scrollHeight = Num 500, offsetHeight = Num 200, scrollTop = Num 0,
               classList = [''body'', ''scrollable-top''],
               borderTopWidth = ''1px'', borderBottomWidth = ''1px'', scrollListeners = 1\<rparr>\<rparr>)))
     = Some (Num 2)
   \<and> js_add (js_sub (Num 500) (Num 200)) (Num 2) = Num 302"
proof -
  define e where "e = \<lparr>scrollHeight = Num 500, offsetHeight = Num 200, scrollTop = Num 0,
               classList = [''body'', ''scrollable-top''],
               borderTopWidth = ''1px'', borderBottomWidth = ''1px'', scrollListeners = 1\<rparr>"
  define g where "g = new_Grid (\<lambda>x y. 0)\<lparr>bodyElement := Some e\<rparr>"
  have h: "bodyElement g = Some e" "borderHeight (body g) = None"
    by (simp_all add: g_def new_Grid_def)
  have p: "parseInt ''1px'' = Num 1"
    by code_simp
  have f: "borderTopWidth e = ''1px''" "borderBottomWidth e = ''1px''"
    "scrollHeight e = Num 500" "offsetHeight e = Num 200" "scrollTop e = Num 0"
    "classList e = [''body'', ''scrollable-top'']"
    by (simp_all add: e_def)
  have sb: "js_add (js_sub (Num 500) (Num 200)) (Num 2) = Num 302"
    by (simp add: js_sub_def)
  have t: "\<exists>e'. bodyElement (onBodyScroll g) = Some e'
      \<and> ''scrollable-top'' \<notin> set (classList e')
      \<and> ''scrollable-bottom'' \<in> set (classList e')
      \<and> borderHeight (body (onBodyScroll g)) = Some (Num 2)
      \<and> (\<forall>c. c \<noteq> ''scrollable-top'' \<and> c \<noteq> ''scrollable-bottom'' \<longrightarrow>
            (c \<in> set (classList e')) = (c = ''body''))
      \<and> scrollTop e' = Num 0 \<and> scrollHeight e' = Num 500 \<and> offsetHeight e' = Num 200"
    using onBodyScroll_edges [where g = g and e = e] h(1)
    by (simp add: Let_def h(2) f p js_sub_def js_eq_def)
  then have b: "borderHeight (body (onBodyScroll g)) = Some (Num 2)"
    by blast
  have v: "bodyElement (onBodyScroll g) = Some (e\<lparr>classList := [''body'', ''scrollable-bottom'']\<rparr>)"
    unfolding g_def e_def by code_simp
  show ?thesis
    using v b sb unfolding g_def e_def by simp
qed

section \<open>Tabs\<close>


lemma find_eq_iff: "(\<exists>y. find (\<lambda>t. t = tab) xs = Some y) \<longleftrightarrow> tab \<in> set xs"
  by (induction xs) auto

lemma forEach_active:
  "foldl (\<lambda>s t. s(t := (s t)\<lparr>active := (t = tab)\<rparr>)) s0 xs =
     (\<lambda>t. if t \<in> set xs then (s0 t)\<lparr>active := (t = tab)\<rparr> else s0 t)"
proof (induction xs arbitrary: s0)
  case Nil
  then show ?case by simp
next
  case (Cons x xs)
  define s1 where "s1 = s0(x := (s0 x)\<lparr>active := (x = tab)\<rparr>)"
  have "foldl (\<lambda>s t. s(t := (s t)\<lparr>active := (t = tab)\<rparr>)) s0 (x # xs) =
      foldl (\<lambda>s t. s(t := (s t)\<lparr>active := (t = tab)\<rparr>)) s1 xs"
    by (simp add: s1_def)
  also have "\<dots> = (\<lambda>t. if t \<in> set xs then (s1 t)\<lparr>active := (t = tab)\<rparr> else s1 t)"
    by (rule Cons.IH)
  also have "\<dots> = (\<lambda>t. if t \<in> set (x # xs) then (s0 t)\<lparr>active := (t = tab)\<rparr> else s0 t)"
    by (rule ext) (simp add: s1_def)
  finally show ?case .
qed

lemma selectTab_found:
  assumes "tab \<in> set (internalTabs st)"
  shows "selectTab st tab =
     (None,
      st\<lparr>store := (\<lambda>t. if t \<in> set (internalTabs st) then (store st t)\<lparr>active := (t = tab)\<rparr>
                        else store st t),
         selectedTab := (if selectedTabId st \<noteq> tab_id (store st tab) then Some tab
                         else selectedTab st),
         selectedTabId := tab_id (store st tab)\<rparr>)"
  using assms by (simp add: selectTab_def find_eq_iff forEach_active Let_def)

lemma selectTab_missing:
  "tab \<notin> set (internalTabs st) \<Longrightarrow>
     selectTab st tab = (Some (Error ''Tab could not be found.''), st)"
  by (simp add: selectTab_def find_eq_iff)

text \<open>
  C10: \<open>selectTab\<close> throws the error \<open>Tab could not be found.\<close> when the tab is not
  in the internal list, and then leaves the whole state, with every active flag, the
  selected tab and \<open>selectedTabId\<close>, as it was; for a tab of the list it throws
  nothing.
\<close>

theorem selectTab_throws:
  "(tab \<notin> set (internalTabs st) \<longrightarrow>
      selectTab st tab = (Some (Error ''Tab could not be found.''), st))
   \<and> (tab \<in> set (internalTabs st) \<longrightarrow> fst (selectTab st tab) = None)"
  by (simp add: selectTab_missing selectTab_found)

text \<open>C10 at work: a reference that is not in the list, and one that is.\<close>

theorem selectTab_throws_witness:
  "selectTab
     \<lparr>store = (\<lambda>t. \<lparr>tab_id = [], active = False\<rparr>)
        (0 := \<lparr>tab_id = ''a'', active = True\<rparr>, 1 := \<lparr>tab_id = ''b'', active = False\<rparr>),
      selectedTab = Some 0, tabs = Some [0, 1], selectedTabId = ''a'', internalTabs = [0, 1]\<rparr> 5
     = (Some (Error ''Tab could not be found.''),
        \<lparr>store = (\<lambda>t. \<lparr>tab_id = [], active = False\<rparr>)
          (0 := \<lparr>tab_id = ''a'', active = True\<rparr>, 1 := \<lparr>tab_id = ''b'', active = False\<rparr>),
         selectedTab = Some 0, tabs = Some [0, 1], selectedTabId = ''a'', internalTabs = [0, 1]\<rparr>)
   \<and> fst (selectTab
     \<lparr>store = (\<lambda>t. \<lparr>tab_id = [], active = False\<rparr>)
        (0 := \<lparr>tab_id = ''a'', active = True\<rparr>, 1 := \<lparr>tab_id = ''b'', active = False\<rparr>),
      selectedTab = Some 0, tabs = Some [0, 1], selectedTabId = ''a'', internalTabs = [0, 1]\<rparr> 1)
     = None"
proof -
  define st where "st = \<lparr>store = (\<lambda>t. \<lparr>tab_id = [], active = False\<rparr>)
        (0 := \<lparr>tab_id = ''a'', active = True\<rparr>, 1 := \<lparr>tab_id = ''b'', active = False\<rparr>),
      selectedTab = Some (0::nat), tabs = Some [0, 1::nat], selectedTabId = ''a'',
      internalTabs = [0, 1::nat]\<rparr>"
  have m: "5 \<notin> set (internalTabs st)" "1 \<in> set (internalTabs st)"
    by (simp_all add: st_def)
  have a: "selectTab st 5 = (Some (Error ''Tab could not be found.''), st)"
    using selectTab_throws [where st = st and tab = 5] m by blast
  have b: "fst (selectTab st 1) = None"
    using selectTab_throws [where st = st and tab = 1] m by blast
  show ?thesis
    using a b unfolding st_def by blast
qed










section \<open>Showing a page\<close>

lemma reset_body_fields:
  "currentIndex (reset_body g) = currentIndex g"
  "dirty (reset_body g) = dirty g"
  by (simp_all add: reset_body_def Let_def split: option.splits)

lemma refresh_load_fields:
  "dirty (refresh_load g) = dirty g"
  "refreshingGrid (refresh_load g) = False"
  by (simp_all add: refresh_load_def Let_def reset_body_fields)

lemma refresh_load_currentIndex:
  "currentIndex (refresh_load g) =
     (let g2 = g\<lparr>refreshingGrid := True\<rparr>;
          fc = res_filteredCount (call_loadData g2 (getCurrentGridDataRequest g2))
      in if \<not> js_eq fc (Num (- 1)) \<and> js_gt (currentIndex g) fc then Num 0 else currentIndex g)"
  by (simp add: refresh_load_def Let_def reset_body_fields)

lemma with_actualRows_fields:
  "autoInit (with_actualRows g) = autoInit g" "loadData (with_actualRows g) = loadData g"
  "isBound (with_actualRows g) = isBound g" "pageSize (with_actualRows g) = pageSize g"
  "refreshingGrid (with_actualRows g) = refreshingGrid g"
  "dirty (with_actualRows g) = dirty g"
  "currentIndex (with_actualRows g) = currentIndex g"
  by (simp_all add: with_actualRows_def)

lemma refreshInternal_unfold:
  "refreshInternal g =
     (if \<not> loads g
      then (if refreshingGrid g \<and> autoInit g \<and> has_loadData (loadData g) \<and> isBound g
               \<and> \<not> js_eq (pageSize g) (Num 0)
            then (with_actualRows g)\<lparr>dirty := True\<rparr> else with_actualRows g)
      else if dirty g then refreshInternal ((refresh_load (with_actualRows g))\<lparr>dirty := False\<rparr>)
      else refresh_load (with_actualRows g))"
proof -
  have "refreshInternal g =
     (let g1 = with_actualRows g
      in if \<not> autoInit g1 \<or> \<not> has_loadData (loadData g1) \<or> \<not> isBound g1
            \<or> js_eq (pageSize g1) (Num 0)
         then g1
         else if \<not> refreshingGrid g1 then
           (let g6 = refresh_load g1
            in if dirty g6 then refreshInternal (g6\<lparr>dirty := False\<rparr>) else g6)
         else g1\<lparr>dirty := True\<rparr>)"
    by (rule refreshInternal.simps)
  then show ?thesis
    by (simp add: Let_def with_actualRows_fields refresh_load_fields loads_def)
qed

lemma refreshInternal_no_load:
  "\<not> loads g \<Longrightarrow> currentIndex (refreshInternal g) = currentIndex g"
  by (subst refreshInternal_unfold) (simp add: with_actualRows_fields)

lemma refreshInternal_one_load:
  "loads g \<Longrightarrow> \<not> dirty g \<Longrightarrow>
     currentIndex (refreshInternal g) =
       (let g2 = (with_actualRows g)\<lparr>refreshingGrid := True\<rparr>;
            fc = res_filteredCount (call_loadData g2 (getCurrentGridDataRequest g2))
        in if \<not> js_eq fc (Num (- 1)) \<and> js_gt (currentIndex g) fc then Num 0
           else currentIndex g)"
  by (subst refreshInternal_unfold)
     (simp add: refresh_load_currentIndex with_actualRows_fields Let_def)

lemma refresh_load_index_cases:
  "currentIndex (refresh_load g) = currentIndex g \<or> currentIndex (refresh_load g) = Num 0"
  by (simp add: refresh_load_currentIndex Let_def)

lemma refreshInternal_clean:
  assumes "\<not> dirty g"
  shows "currentIndex (refreshInternal g) = currentIndex g \<or> currentIndex (refreshInternal g) = Num 0"
proof (cases "loads g")
  case True
  then have "refreshInternal g = refresh_load (with_actualRows g)"
    using assms by (subst refreshInternal_unfold) simp
  then show ?thesis
    using refresh_load_index_cases [of "with_actualRows g"] by (simp add: with_actualRows_fields)
next
  case False
  then show ?thesis by (simp add: refreshInternal_no_load)
qed

lemma refreshInternal_currentIndex:
  "currentIndex (refreshInternal g) = currentIndex g \<or> currentIndex (refreshInternal g) = Num 0"
proof (cases "loads g \<and> dirty g")
  case True
  define g' where "g' = (refresh_load (with_actualRows g))\<lparr>dirty := False\<rparr>"
  have e: "refreshInternal g = refreshInternal g'"
    using True by (subst refreshInternal_unfold) (simp add: g'_def)
  have c: "\<not> dirty g'"
    by (simp add: g'_def)
  have k: "currentIndex g' = currentIndex g \<or> currentIndex g' = Num 0"
    using refresh_load_index_cases [of "with_actualRows g"]
    by (simp add: g'_def with_actualRows_fields)
  show ?thesis
    using refreshInternal_clean [OF c] e k by auto
next
  case False
  then show ?thesis
    using refreshInternal_clean [of g] refreshInternal_no_load [of g] by blast
qed

text \<open>
  C8, as the specification states it, fails: \<open>showPage\<close> refreshes the grid after it
  has set \<open>currentIndex\<close>, and the refresh puts \<open>currentIndex\<close> back to \<open>0\<close> when the
  loader reports fewer rows than the index. With pages of ten rows, a stored
  \<open>filteredCount\<close> of a hundred and a loader that now reports three rows,
  \<open>showPage(5)\<close> returns true and leaves \<open>currentIndex\<close> at \<open>0\<close>, not at \<open>50\<close>.
\<close>

theorem showPage_counterexample:
  "fst (showPage
     (new_Grid (\<lambda>x y. 0)
        \<lparr>loadData := CustomLoadData
           (\<lambda>request. \<lparr>items = Some [JNum 1, JNum 2, JNum 3],
                        res_filteredCount = Num 3, res_totalCount = Num 3\<rparr>),
         pageSize := Num 10, filteredCount := Num 100, isBound := True\<rparr>)
     (Num 5))
   \<and> js_mul (Num 10) (Num 5) = Num 50
   \<and> currentIndex (snd (showPage
     (new_Grid (\<lambda>x y. 0)
        \<lparr>loadData := CustomLoadData
           (\<lambda>request. \<lparr>items = Some [JNum 1, JNum 2, JNum 3],
                        res_filteredCount = Num 3, res_totalCount = Num 3\<rparr>),
         pageSize := Num 10, filteredCount := Num 100, isBound := True\<rparr>)
     (Num 5))) = Num 0"
  by code_simp

text \<open>
  C8, amended: \<open>showPage\<close> returns true exactly when the page number differs from the
  current page, is at least \<open>0\<close> and is less than \<open>pageCount\<close>; for every other
  argument it returns false and leaves the grid as it is. When it returns true it
  sets \<open>currentIndex\<close> to \<open>pageSize * pageNumber\<close> and refreshes the grid; afterwards
  \<open>currentIndex\<close> is that product or \<open>0\<close>: the product when the refresh does not ask
  for data, and, when it asks once, \<open>0\<close> exactly when the loader reports a
  \<open>filteredCount\<close> other than \<open>-1\<close> that is less than the product.
\<close>

theorem showPage_result:
  "fst (showPage g pageNumber) =
     (\<not> js_eq pageNumber (currentPage g) \<and> js_ge pageNumber (Num 0)
      \<and> js_lt pageNumber (pageCount g))
   \<and> (\<not> fst (showPage g pageNumber) \<longrightarrow> snd (showPage g pageNumber) = g)
   \<and> (fst (showPage g pageNumber) \<longrightarrow>
        snd (showPage g pageNumber) =
          refreshInternal (g\<lparr>currentIndex := js_mul (pageSize g) pageNumber\<rparr>)
        \<and> (currentIndex (snd (showPage g pageNumber)) = js_mul (pageSize g) pageNumber
            \<or> currentIndex (snd (showPage g pageNumber)) = Num 0))
   \<and> (fst (showPage g pageNumber) \<and> \<not> loads g \<longrightarrow>
        currentIndex (snd (showPage g pageNumber)) = js_mul (pageSize g) pageNumber)
   \<and> (fst (showPage g pageNumber) \<and> loads g \<and> \<not> dirty g \<longrightarrow>
        currentIndex (snd (showPage g pageNumber)) =
          (let g2 = (with_actualRows (g\<lparr>currentIndex := js_mul (pageSize g) pageNumber\<rparr>))
                      \<lparr>refreshingGrid := True\<rparr>;
               fc = res_filteredCount (call_loadData g2 (getCurrentGridDataRequest g2))
           in if \<not> js_eq fc (Num (- 1)) \<and> js_gt (js_mul (pageSize g) pageNumber) fc
              then Num 0 else js_mul (pageSize g) pageNumber))"
proof -
  define g' where "g' = g\<lparr>currentIndex := js_mul (pageSize g) pageNumber\<rparr>"
  have l: "loads g' = loads g" "dirty g' = dirty g" "currentIndex g' = js_mul (pageSize g) pageNumber"
    by (simp_all add: g'_def loads_def)
  have a: "currentIndex (refreshInternal g') = js_mul (pageSize g) pageNumber
      \<or> currentIndex (refreshInternal g') = Num 0"
    using refreshInternal_currentIndex [of g'] l by simp
  have b: "\<not> loads g \<longrightarrow> currentIndex (refreshInternal g') = js_mul (pageSize g) pageNumber"
    using refreshInternal_no_load [of g'] l by simp
  have c: "loads g \<and> \<not> dirty g \<longrightarrow>
      currentIndex (refreshInternal g') =
          (let g2 = (with_actualRows g')\<lparr>refreshingGrid := True\<rparr>;
               fc = res_filteredCount (call_loadData g2 (getCurrentGridDataRequest g2))
           in if \<not> js_eq fc (Num (- 1)) \<and> js_gt (js_mul (pageSize g) pageNumber) fc
              then Num 0 else js_mul (pageSize g) pageNumber)"
    using refreshInternal_one_load [of g'] l by (simp add: Let_def)
  show ?thesis
    using a b c unfolding g'_def by (simp add: showPage_def Let_def)
qed

text \<open>
  The amended C8 at work: five rows in pages of two. Page 2 is shown, with the index
  on its first row and its one row displayed; page 3 does not exist and page 0 is the
  current page, so both are refused.
\<close>

theorem showPage_result_witness:
  "fst (showPage
     (new_Grid (\<lambda>x y. 0)
        \<lparr>pageSize := Num 2, filteredCount := Num 5, isBound := True,
         rows := Some [JNum 10, JNum 11, JNum 12, JNum 13, JNum 14]\<rparr>) (Num 2))
   \<and> currentIndex (snd (showPage
     (new_Grid (\<lambda>x y. 0)
        \<lparr>pageSize := Num 2, filteredCount := Num 5, isBound := True,
         rows := Some [JNum 10, JNum 11, JNum 12, JNum 13, JNum 14]\<rparr>) (Num 2))) = Num 4
   \<and> displayedRows (snd (showPage
     (new_Grid (\<lambda>x y. 0)
        \<lparr>pageSize := Num 2, filteredCount := Num 5, isBound := True,
         rows := Some [JNum 10, JNum 11, JNum 12, JNum 13, JNum 14]\<rparr>) (Num 2)))
     = Some [JNum 14]
   \<and> \<not> fst (showPage
     (new_Grid (\<lambda>x y. 0)
        \<lparr>pageSize := Num 2, filteredCount := Num 5, isBound := True,
         rows := Some [JNum 10, JNum 11, JNum 12, JNum 13, JNum 14]\<rparr>) (Num 3))
   \<and> snd (showPage
     (new_Grid (\<lambda>x y. 0)
        \<lparr>pageSize := Num 2, filteredCount := Num 5, isBound := True,
         rows := Some [JNum 10, JNum 11, JNum 12, JNum 13, JNum 14]\<rparr>) (Num 0))
     = new_Grid (\<lambda>x y. 0)
        \<lparr>pageSize := Num 2, filteredCount := Num 5, isBound := True,
         rows := Some [JNum 10, JNum 11, JNum 12, JNum 13, JNum 14]\<rparr>"
proof -
  define g where "g = new_Grid (\<lambda>x y. 0)
        \<lparr>pageSize := Num 2, filteredCount := Num 5, isBound := True,
         rows := Some [JNum 10, JNum 11, JNum 12, JNum 13, JNum 14]\<rparr>"
  have p: "pageCount g = Num 3" "currentPage g = Num 0"
    unfolding g_def by code_simp+
  have f: "pageSize g = Num 2" "loads g" "\<not> dirty g"
    by (simp_all add: g_def new_Grid_def loads_def js_eq_def)
  have fc: "res_filteredCount
      (call_loadData ((with_actualRows (g\<lparr>currentIndex := Num 4\<rparr>))\<lparr>refreshingGrid := True\<rparr>)
         (getCurrentGridDataRequest
            ((with_actualRows (g\<lparr>currentIndex := Num 4\<rparr>))\<lparr>refreshingGrid := True\<rparr>)))
      = Num 5"
    unfolding g_def by code_simp
  have c2: "\<not> js_eq (Num 2) (currentPage g) \<and> js_ge (Num 2) (Num 0) \<and> js_lt (Num 2) (pageCount g)"
    by (simp add: p js_eq_def js_ge_def)
  have a: "fst (showPage g (Num 2))"
    using showPage_result [where g = g and pageNumber = "Num 2"] c2 by blast
  have b: "currentIndex (snd (showPage g (Num 2))) = Num 4"
    using showPage_result [where g = g and pageNumber = "Num 2"] a f fc
    by (auto simp: Let_def js_eq_def js_gt_def)
  have d: "displayedRows (snd (showPage g (Num 2))) = Some [JNum 14]"
    unfolding g_def by code_simp
  have c3: "\<not> (\<not> js_eq (Num 3) (currentPage g) \<and> js_ge (Num 3) (Num 0) \<and> js_lt (Num 3) (pageCount g))"
    by (simp add: p)
  have e: "\<not> fst (showPage g (Num 3))"
    using showPage_result [where g = g and pageNumber = "Num 3"] c3 by blast
  have c0: "\<not> (\<not> js_eq (Num 0) (currentPage g) \<and> js_ge (Num 0) (Num 0) \<and> js_lt (Num 0) (pageCount g))"
    by (simp add: p js_eq_def)
  have h: "snd (showPage g (Num 0)) = g"
    using showPage_result [where g = g and pageNumber = "Num 0"] c0 by blast
  show ?thesis
    using a b d e h unfolding g_def by blast
qed

section \<open>The bound rows are not written\<close>

lemma filterItems_h_cases:
  "filterItems_h g h r = (r, h) \<and> filterItems g (h ! r) = h ! r
   \<or> filterItems_h g h r = (length h, h @ [filterItems g (h ! r)])"
  by (auto simp: filterItems_h_def filterItems_def Array_filter_h_def Let_def)

lemma slice_then_sort:
  "(let (c, h1) = Array_slice_h h a in Array_sort_h f h1 c) = (length h, h @ [Array_sort f (h ! a)])"
  by (simp add: Array_slice_h_def Array_sort_h_def)

lemma sortItems_h_cases:
  "sortItems_h g h a = (a, h) \<and> sortItems g (h ! a) = h ! a \<and> sortColumn g = None
   \<or> sortItems_h g h a = (length h, h @ [sortItems g (h ! a)]) \<and> sortColumn g \<noteq> None"
  by (auto simp: sortItems_h_def sortItems_def slice_then_sort split: option.splits)

lemma compute_actualRows_h_frame:
  assumes r: "r < length h"
  shows "\<exists>s h'. compute_actualRows_h g h (Some r) = (Some s, h')
     \<and> (\<forall>a < length h. h' ! a = h ! a)
     \<and> length h \<le> length h'
     \<and> s < length h'
     \<and> h' ! s = sortItems g (filterItems g (h ! r))
     \<and> (s = r \<or> length h \<le> s)"
proof -
  obtain f h1 where fh: "filterItems_h g h r = (f, h1)"
    by (cases "filterItems_h g h r")
  obtain s h2 where sh: "sortItems_h g h1 f = (s, h2)"
    by (cases "sortItems_h g h1 f")
  have c: "compute_actualRows_h g h (Some r) = (Some s, h2)"
    by (simp add: compute_actualRows_h_def fh sh)
  have f1: "(f = r \<and> h1 = h \<or> f = length h \<and> h1 = h @ [filterItems g (h ! r)])
      \<and> h1 ! f = filterItems g (h ! r)"
    using filterItems_h_cases [of g h r] fh by auto
  then have f2: "f < length h1" "\<forall>a < length h. h1 ! a = h ! a" "length h \<le> length h1"
    "f = r \<or> length h \<le> f"
    using r by (auto simp: nth_append)
  have s1: "(s = f \<and> h2 = h1 \<or> s = length h1 \<and> h2 = h1 @ [sortItems g (h1 ! f)])
      \<and> h2 ! s = sortItems g (h1 ! f)"
    using sortItems_h_cases [of g h1 f] sh by auto
  then have s2: "s < length h2" "\<forall>a < length h1. h2 ! a = h1 ! a" "length h1 \<le> length h2"
    "s = f \<or> length h1 \<le> s"
    using f2(1) by (auto simp: nth_append)
  have "\<forall>a < length h. h2 ! a = h ! a"
    using f2 s2 by auto
  moreover have "h2 ! s = sortItems g (filterItems g (h ! r))"
    using s1 f1 by simp
  moreover have "s = r \<or> length h \<le> s"
    using f2 s2 by auto
  moreover have "length h \<le> length h2"
    using f2 s2 by auto
  ultimately show ?thesis
    using c s2(1) by blast
qed

text \<open>
  C9: computing \<open>actualRows\<close> in \<open>refreshInternal\<close> writes no array that existed
  before, the bound rows included: \<open>filterItems\<close> returns the array it was given or
  a new one, \<open>sortItems\<close> returns the array it was given (without a sort column) or
  sorts a new copy, so the array stored in \<open>actualRows\<close> is the bound one or a new
  one, and it holds the rows filtered and sorted.
\<close>

theorem refresh_keeps_rows:
  "(r < length h \<longrightarrow>
      (\<exists>s h'. compute_actualRows_h g h (Some r) = (Some s, h')
         \<and> (\<forall>a < length h. h' ! a = h ! a)
         \<and> h' ! r = h ! r
         \<and> length h \<le> length h'
         \<and> s < length h'
         \<and> h' ! s = sortItems g (filterItems g (h ! r))
         \<and> (rows g = Some (h ! r) \<longrightarrow> actualRows (with_actualRows g) = Some (h' ! s))
         \<and> (s = r \<or> length h \<le> s)))
   \<and> compute_actualRows_h g h None = (None, h)
   \<and> (filterItems_h g h r = (r, h)
       \<or> filterItems_h g h r = (length h, h @ [filterItems g (h ! r)]))
   \<and> (sortItems_h g h r = (r, h) \<and> sortColumn g = None
       \<or> sortItems_h g h r = (length h, h @ [sortItems g (h ! r)]) \<and> sortColumn g \<noteq> None)"
proof -
  have a: "r < length h \<longrightarrow>
      (\<exists>s h'. compute_actualRows_h g h (Some r) = (Some s, h')
         \<and> (\<forall>a < length h. h' ! a = h ! a)
         \<and> h' ! r = h ! r
         \<and> length h \<le> length h'
         \<and> s < length h'
         \<and> h' ! s = sortItems g (filterItems g (h ! r))
         \<and> (rows g = Some (h ! r) \<longrightarrow> actualRows (with_actualRows g) = Some (h' ! s))
         \<and> (s = r \<or> length h \<le> s))"
  proof
    assume r: "r < length h"
    from compute_actualRows_h_frame [OF r, of g]
    obtain s h' where p: "compute_actualRows_h g h (Some r) = (Some s, h')"
      "\<forall>a < length h. h' ! a = h ! a" "length h \<le> length h'" "s < length h'"
      "h' ! s = sortItems g (filterItems g (h ! r))" "s = r \<or> length h \<le> s"
      by blast
    have q: "h' ! r = h ! r"
      using p(2) r by blast
    have w: "rows g = Some (h ! r) \<longrightarrow> actualRows (with_actualRows g) = Some (h' ! s)"
      by (simp add: with_actualRows_def p(5))
    show "\<exists>s h'. compute_actualRows_h g h (Some r) = (Some s, h')
         \<and> (\<forall>a < length h. h' ! a = h ! a)
         \<and> h' ! r = h ! r
         \<and> length h \<le> length h'
         \<and> s < length h'
         \<and> h' ! s = sortItems g (filterItems g (h ! r))
         \<and> (rows g = Some (h ! r) \<longrightarrow> actualRows (with_actualRows g) = Some (h' ! s))
         \<and> (s = r \<or> length h \<le> s)"
      using p q w by blast
  qed
  have b: "compute_actualRows_h g h None = (None, h)"
    by (simp add: compute_actualRows_h_def)
  have c: "filterItems_h g h r = (r, h)
       \<or> filterItems_h g h r = (length h, h @ [filterItems g (h ! r)])"
    using filterItems_h_cases [of g h r] by blast
  have d: "sortItems_h g h r = (r, h) \<and> sortColumn g = None
       \<or> sortItems_h g h r = (length h, h @ [sortItems g (h ! r)]) \<and> sortColumn g \<noteq> None"
    using sortItems_h_cases [of g h r] by blast
  show ?thesis
    using a b c d by blast
qed

text \<open>
  C9 at work: three rows, filtered by \<open>1\<close> and sorted by the field \<open>n\<close>; the heap
  gets the filtered array and the sorted copy, and the bound array is as before.
\<close>

theorem refresh_keeps_rows_witness:
  "compute_actualRows_h
     (new_Grid (\<lambda>x y. 0)
        \<lparr>columns := [\<lparr>field = [''n''], searchable = True, sortable = True,
                      matcher = None, sorter = None\<rparr>],
         sortColumn := Some \<lparr>field = [''n''], searchable = True, sortable = True,
                             matcher = None, sorter = None\<rparr>,
         sortOrder := Some asc, filter_str := ''1''\<rparr>)
     [[JObj 0 [(''n'', JNum 13)], JObj 1 [(''n'', JNum 2)], JObj 2 [(''n'', JNum 11)]]]
     (Some 0)
   = (Some 2,
      [[JObj 0 [(''n'', JNum 13)], JObj 1 [(''n'', JNum 2)], JObj 2 [(''n'', JNum 11)]],
       [JObj 0 [(''n'', JNum 13)], JObj 2 [(''n'', JNum 11)]],
       [JObj 2 [(''n'', JNum 11)], JObj 0 [(''n'', JNum 13)]]])
   \<and> (0::nat) < length [[JObj 0 [(''n'', JNum 13)], JObj 1 [(''n'', JNum 2)], JObj 2 [(''n'', JNum 11)]]]"
proof -
  define g where "g = new_Grid (\<lambda>x y. 0)
        \<lparr>columns := [\<lparr>field = [''n''], searchable = True, sortable = True,
                      matcher = None, sorter = None\<rparr>],
         sortColumn := Some \<lparr>field = [''n''], searchable = True, sortable = True,
                             matcher = None, sorter = None\<rparr>,
         sortOrder := Some asc, filter_str := ''1''\<rparr>"
  define h where "h = [[JObj 0 [(''n'', JNum 13)], JObj 1 [(''n'', JNum 2)], JObj 2 [(''n'', JNum 11)]]]"
  have r: "(0::nat) < length h"
    by (simp add: h_def)
  have v: "compute_actualRows_h g h (Some 0)
   = (Some 2,
      [[JObj 0 [(''n'', JNum 13)], JObj 1 [(''n'', JNum 2)], JObj 2 [(''n'', JNum 11)]],
       [JObj 0 [(''n'', JNum 13)], JObj 2 [(''n'', JNum 11)]],
       [JObj 2 [(''n'', JNum 11)], JObj 0 [(''n'', JNum 13)]]])"
    unfolding g_def h_def by code_simp
  from refresh_keeps_rows [where g = g and h = h and r = 0] r
  obtain s h' where "compute_actualRows_h g h (Some 0) = (Some s, h')" "h' ! 0 = h ! 0"
    by blast
  then show ?thesis
    using v r unfolding g_def h_def by simp
qed

end
